theory Spec2Isabelle
  imports Complex_Main "HOL-Library.Word" "HOL-Library.Signed_Division"
begin

section \<open>GoHz audio analyzer: data model\<close>

text \<open>
  The analyzer (\<^verbatim>\<open>analize\<close>) is a Go program. Its finite \<^verbatim>\<open>float64\<close> values
  are modelled as real numbers, Go's \<^verbatim>\<open>int\<close> and \<^verbatim>\<open>int64\<close> as 64-bit words
  read as two's complement, a nil-able pointer \<^verbatim>\<open>*T\<close> as \<open>T option\<close>, a slice as
  a list and \<^verbatim>\<open>map[string]float64\<close> as a partial function. Where the rounding of
  float64 arithmetic decides a property (the diff of two analyses), the rounding is
  written out.
\<close>

type_synonym float64 = real
type_synonym goint = "64 word"

text \<open>
  A float64 that can be an infinity or NaN (the result of a division, or the default that
  \<^verbatim>\<open>derefFloat\<close> supplies) is a value of \<open>fval\<close>: a finite number, one of the two
  infinities, or NaN.
\<close>

datatype fval = Fin real | PInf | NInf | NaN

record Bandspec =
  Lo :: float64
  Hi :: float64

record Config =
  OutPath :: string
  Report :: string
  FFmpegBin :: string
  FFprobeBin :: string
  AubioBin :: string
  BPMEngine :: string
  UseBands :: bool
  CfgBands :: "Bandspec list"
  UseEBUR128 :: bool
  AstatsWin :: float64
  SilThresDB :: float64

record ProbeInfo =
  FormatName :: string
  Duration :: float64
  SampleRate :: goint
  Channels :: goint
  BitRate :: goint
  BitDepth :: goint

record LevelStats =
  PeakDB :: float64
  RMSDB :: float64
  CrestDB :: float64
  TruePeakDBTP :: "float64 option"
  HeadroomDB :: float64
  DCOffset :: float64
  ZeroXRate :: float64
  NoiseFloor :: float64
  ClipSamples :: "goint option"
  ClipPercent :: "fval option"

record LUFS =
  Integrated :: float64
  Range :: float64
  TruePeak :: "float64 option"

record BandStat =
  Band :: Bandspec
  BandPeakDB :: float64
  BandRMSDB :: float64

record StereoStats =
  MidRMS :: float64
  SideRMS :: float64
  SideMidRatioDB :: float64
  Correlation :: "float64 option"

record SpectralStats =
  Centroid :: "float64 option"
  Rolloff95 :: "float64 option"
  Flatness :: "float64 option"
  Spread :: "float64 option"
  Skewness :: "float64 option"
  Kurtosis :: "float64 option"

record TempoStats =
  BPMMedian :: "float64 option"
  BPMMean :: "float64 option"
  BPMStd :: "float64 option"
  Events :: goint
  OnsetPerMin :: "float64 option"

record PitchStats =
  HzMedian :: "float64 option"
  HzMean :: "float64 option"
  HzMin :: "float64 option"
  HzMax :: "float64 option"
  MIDIMedian :: "float64 option"
  Note :: "string option"

record KeyInfo =
  Key :: "string option"
  Scale :: "string option"
  Conf :: "float64 option"

record SilenceSpan =
  Start :: float64
  End :: float64

record Analysis =
  File :: string
  When :: string
  Probe :: ProbeInfo
  Level :: LevelStats
  Loudness :: "LUFS option"
  Stereo :: StereoStats
  Spectral :: SpectralStats
  Bands :: "BandStat list"
  Tempo :: "TempoStats option"
  Pitch :: "PitchStats option"
  AKey :: "KeyInfo option"
  Silence :: "SilenceSpan list"
  SilenceRatio :: "float64 option"
  SilenceTotal :: "float64 option"
  Notes :: "string list"

record Diff =
  DiffA :: Analysis
  DiffB :: Analysis
  Delta :: "string \<rightharpoonup> float64"

text \<open>
  Every error value the modelled functions return, and the one run-time panic they can
  raise (a slice read out of range).
\<close>

datatype error =
  StatFailed
  | FfprobeFailed
  | VolumedetectParseFailed
  | NoAstatsParsed
  | NoIntegrated
  | BandParseFailed
  | AubioNotFound
  | AubioTempoFailed
  | NoBpmSeries
  | FfmpegSplitFailed
  | PanicIndexOutOfRange

section \<open>Silence segmenter (\<^verbatim>\<open>analize/silence_split.go\<close>)\<close>

record segment =
  seg_start :: float64
  seg_end :: float64

text \<open>
  The first loop of \<^verbatim>\<open>splitBySilence\<close>: it walks the spans with the
  accumulated segments and the cursor \<^verbatim>\<open>start\<close>.
\<close>

fun buildSegs :: "float64 \<Rightarrow> SilenceSpan list \<Rightarrow> segment list \<Rightarrow> float64
    \<Rightarrow> segment list \<times> float64" where
  "buildSegs minSilDur [] segs start = (segs, start)"
| "buildSegs minSilDur (s # spans) segs start =
     (if End s - Start s \<ge> minSilDur
      then buildSegs minSilDur spans
             (segs @ [\<lparr>seg_start = start, seg_end = Start s\<rparr>]) (End s)
      else buildSegs minSilDur spans segs start)"

definition segmentsOf :: "SilenceSpan list \<Rightarrow> float64 \<Rightarrow> float64 \<Rightarrow> segment list" where
  "segmentsOf spans dur minSilDur =
     (case buildSegs minSilDur spans [] 0 of
        (segs, start) \<Rightarrow>
          if start < dur then segs @ [\<lparr>seg_start = start, seg_end = dur\<rparr>] else segs)"

text \<open>
  The body of the second loop up to the call of ffmpeg: the values passed as
  \<^verbatim>\<open>-ss\<close> and \<^verbatim>\<open>-to\<close>.
\<close>

definition trimSegment :: "float64 \<Rightarrow> segment \<Rightarrow> float64 \<times> float64" where
  "trimSegment trim sg =
     (let s = seg_start sg; e = seg_end sg in
      if trim > 0
      then (let s' = min e (s + trim); e' = max s' (e - trim) in (s', e'))
      else (s, e))"

text \<open>
  One cut is one run of ffmpeg: the part number \<^verbatim>\<open>i+1\<close> that names the output
  file, and the two time stamps. \<open>runCut\<close> tells whether that run succeeded. The loop
  returns the cuts written so far together with the error, as the source returns
  \<^verbatim>\<open>outs\<close> and \<^verbatim>\<open>err\<close>.
\<close>

type_synonym cut = "nat \<times> float64 \<times> float64"

fun cutLoop :: "(cut \<Rightarrow> bool) \<Rightarrow> float64 \<Rightarrow> nat \<Rightarrow> segment list \<Rightarrow> cut list
    \<Rightarrow> cut list \<times> error option" where
  "cutLoop runCut trim i [] outs = (outs, None)"
| "cutLoop runCut trim i (sg # segs) outs =
     (case trimSegment trim sg of
        (s, e) \<Rightarrow>
          if runCut (i + 1, s, e)
          then cutLoop runCut trim (i + 1) segs (outs @ [(i + 1, s, e)])
          else (outs, Some FfmpegSplitFailed))"

definition splitBySilence :: "(cut \<Rightarrow> bool) \<Rightarrow> Analysis \<Rightarrow> float64 \<Rightarrow> float64
    \<Rightarrow> cut list \<times> error option" where
  "splitBySilence runCut a minSilDur trim =
     (let spans = Silence a;
          dur = Duration (Probe a);
          segs = segmentsOf spans dur minSilDur
      in if length segs \<le> 1 then ([], None)
         else cutLoop runCut trim 0 segs [])"

section \<open>Go primitives used by the analyzer\<close>

text \<open>
  A slice read \<^verbatim>\<open>xs[i]\<close>: Go panics when the index is out of range.
\<close>

definition index :: "'a list \<Rightarrow> int \<Rightarrow> error + 'a" where
  "index xs i = (if 0 \<le> i \<and> i < int (length xs) then Inr (xs ! nat i)
                 else Inl PanicIndexOutOfRange)"

definition bindE :: "error + 'a \<Rightarrow> ('a \<Rightarrow> error + 'b) \<Rightarrow> error + 'b" where
  "bindE r f = (case r of Inl e \<Rightarrow> Inl e | Inr x \<Rightarrow> f x)"

text \<open>
  The conversions \<^verbatim>\<open>int64(v)\<close> and \<^verbatim>\<open>int(v)\<close> of a float64 drop the
  fraction (towards zero). For a value outside the 64-bit range Go leaves the result to the
  implementation; the value chosen here is the one of amd64. \<^verbatim>\<open>float64(c)\<close>
  reads the integer as a signed number.
\<close>

definition truncReal :: "real \<Rightarrow> int" where
  "truncReal x = (if x < 0 then \<lceil>x\<rceil> else \<lfloor>x\<rfloor>)"

definition toInt64 :: "float64 \<Rightarrow> goint" where
  "toInt64 x =
     (let t = truncReal x in
      if - (2 ^ 63) \<le> t \<and> t < 2 ^ 63 then word_of_int t else word_of_int (- (2 ^ 63)))"

definition toFloat :: "goint \<Rightarrow> float64" where
  "toFloat w = real_of_int (sint w)"

text \<open>
  The quotient \<^verbatim>\<open>x / y\<close> of two finite float64 values where the divisor can be
  zero (the zero being the positive one): an infinity with the sign of \<^verbatim>\<open>x\<close>, or
  NaN for 0 / 0.
\<close>

definition fdiv :: "float64 \<Rightarrow> float64 \<Rightarrow> fval" where
  "fdiv x y = (if y = 0 then (if x > 0 then PInf else if x < 0 then NInf else NaN)
               else Fin (x / y))"

text \<open>
  The rounding of float64 arithmetic: the exact result of an operation is rounded to the
  nearest number with a significand of 53 bits and an exponent of at least -1074, a tie
  going to the even significand; a result that rounds to \<open>2 ^ 1024\<close> is an infinity.
  \<open>fsub\<close> is the subtraction \<^verbatim>\<open>x - y\<close> of two finite float64 values.
\<close>

definition roundEven :: "real \<Rightarrow> int" where
  "roundEven y =
     (let f = \<lfloor>y\<rfloor>; d = y - real_of_int f in
      if d < 1 / 2 then f else if d > 1 / 2 then f + 1 else if even f then f else f + 1)"

definition fl64 :: "real \<Rightarrow> fval" where
  "fl64 x =
     (if x = 0 then Fin 0
      else let e = max (\<lfloor>log 2 \<bar>x\<bar>\<rfloor> - 52) (- 1074);
               u = 2 powr real_of_int e;
               r = real_of_int (roundEven (\<bar>x\<bar> / u)) * u
           in if r \<ge> 2 ^ 1024 then (if x > 0 then PInf else NInf)
              else Fin (sgn x * r))"

definition fsub :: "float64 \<Rightarrow> float64 \<Rightarrow> fval" where
  "fsub x y = fl64 (x - y)"

text \<open>\<^verbatim>\<open>math.Round\<close>: to the nearest integer, halves away from zero.\<close>

definition goRound :: "float64 \<Rightarrow> float64" where
  "goRound x = (if x < 0 then - real_of_int \<lfloor>- x + 1 / 2\<rfloor> else real_of_int \<lfloor>x + 1 / 2\<rfloor>)"

text \<open>
  Go's \<^verbatim>\<open>/\<close> and \<^verbatim>\<open>%\<close> on integers truncate towards zero (the divisor is
  the constant 12 wherever the analyzer uses them).
\<close>

definition goDiv :: "goint \<Rightarrow> goint \<Rightarrow> goint" where
  "goDiv a b = word_of_int (sint a sdiv sint b)"

definition goRem :: "goint \<Rightarrow> goint \<Rightarrow> goint" where
  "goRem a b = word_of_int (sint a smod sint b)"

text \<open>The verb \<^verbatim>\<open>%d\<close> of \<^verbatim>\<open>fmt.Sprintf\<close>.\<close>

definition digitChar :: "nat \<Rightarrow> char" where
  "digitChar d = ''0123456789'' ! d"

fun showNat :: "nat \<Rightarrow> string" where
  "showNat n = (if n < 10 then [digitChar n] else showNat (n div 10) @ [digitChar (n mod 10)])"

definition showInt :: "int \<Rightarrow> string" where
  "showInt i = (if i < 0 then CHR ''-'' # showNat (nat (- i)) else showNat (nat i))"

text \<open>
  \<^verbatim>\<open>strings.ToLower\<close> and \<^verbatim>\<open>strings.ToUpper\<close> on the ASCII letters (the
  strings they are applied to are a command-line flag and a match of \<^verbatim>\<open>[A-G][#b]?\<close>).
\<close>

definition lowerChar :: "char \<Rightarrow> char" where
  "lowerChar c =
     (case map_of (zip ''ABCDEFGHIJKLMNOPQRSTUVWXYZ'' ''abcdefghijklmnopqrstuvwxyz'') c of
        Some l \<Rightarrow> l | None \<Rightarrow> c)"

definition upperChar :: "char \<Rightarrow> char" where
  "upperChar c =
     (case map_of (zip ''abcdefghijklmnopqrstuvwxyz'' ''ABCDEFGHIJKLMNOPQRSTUVWXYZ'') c of
        Some u \<Rightarrow> u | None \<Rightarrow> c)"

definition toLower :: "string \<Rightarrow> string" where
  "toLower s = map lowerChar s"

definition toUpper :: "string \<Rightarrow> string" where
  "toUpper s = map upperChar s"

section \<open>Math helpers (\<^verbatim>\<open>mean\<close>, \<^verbatim>\<open>stddev\<close>, \<^verbatim>\<open>hzToMIDI\<close>, \<^verbatim>\<open>midiToNoteName\<close>)\<close>

text \<open>
  \<^verbatim>\<open>mean\<close> returns NaN on the empty slice; NaN is no real number, so the result
  is an option and \<open>None\<close> stands for NaN.
\<close>

definition mean :: "float64 list \<Rightarrow> float64 option" where
  "mean xs = (if length xs = 0 then None
              else Some (foldl (\<lambda>s v. s + v) 0 xs / real (length xs)))"

definition stddev :: "float64 list \<Rightarrow> float64 \<Rightarrow> float64" where
  "stddev xs m =
     (if length xs < 2 then 0
      else sqrt (foldl (\<lambda>s v. let d = v - m in s + d * d) 0 xs / real (length xs - 1)))"

definition hzToMIDI :: "float64 \<Rightarrow> float64" where
  "hzToMIDI hz = 69 + 12 * log 2 (hz / 440)"

definition noteNames :: "string list" where
  "noteNames = [''C'', ''C#'', ''D'', ''D#'', ''E'', ''F'', ''F#'', ''G'', ''G#'', ''A'', ''A#'', ''B'']"

definition midiToNoteName :: "goint \<Rightarrow> error + string" where
  "midiToNoteName m =
     (let n = goRem (m + 1200) 12;
          oct = goDiv m 12 - 1
      in bindE (index noteNames (sint n)) (\<lambda>name. Inr (name @ showInt (sint oct))))"

section \<open>The external tools\<close>

text \<open>
  The analyzer measures nothing itself: it runs ffprobe, ffmpeg and aubio and reads their
  text output with regular expressions. One run of the tools on one input file is a
  record of what each probe function returned or, for the aubio functions modelled below,
  of what the regular expressions found in the output. \<open>parseFloat\<close> is the helper of
  that name (\<^verbatim>\<open>strconv.ParseFloat\<close>) and \<open>fmtFloat n\<close> the verb
  \<^verbatim>\<open>%.nf\<close> of \<^verbatim>\<open>fmt.Sprintf\<close>.
\<close>

record Tools =
  statOk :: bool
  ffprobeInfo :: "error + ProbeInfo"
  ffmpegVolumedetect :: "float64 \<times> float64 \<times> error option"
  ffmpegAstatsOverall :: "(string \<rightharpoonup> float64) \<times> error option"
  ffmpegEBUR128 :: "error + LUFS"
  ffmpegSpectral :: SpectralStats
  ffmpegStereoStuff :: StereoStats
  ffmpegBandLoudness :: "Bandspec \<Rightarrow> float64 \<times> float64 \<times> error option"
  detectSilences :: "SilenceSpan list"
  haveAubio :: bool
  tempoFailed :: bool
  tempoVals :: "float64 list"
  onsetCount :: goint
  pitchVals :: "float64 list"
  keyMatch :: "string list"
  confMatch :: "string list"
  parseFloat :: "string \<Rightarrow> float64"
  fmtFloat :: "nat \<Rightarrow> float64 \<Rightarrow> string"
  timeNow :: string

section \<open>aubio helpers (\<^verbatim>\<open>analize/aubio.go\<close>)\<close>

text \<open>
  \<open>tempoFailed\<close> is the test \<^verbatim>\<open>err != nil && out == ""\<close> on the run of
  \<^verbatim>\<open>aubio tempo\<close>; \<open>tempoVals\<close> are the numbers the scan of its output collects.
\<close>

definition aubioBPMSeries :: "Tools \<Rightarrow> error + float64 list" where
  "aubioBPMSeries t =
     (if \<not> haveAubio t then Inl AubioNotFound
      else if tempoFailed t then Inl AubioTempoFailed
      else let vals = tempoVals t in
           if length vals = 0 then Inl NoBpmSeries else Inr vals)"

text \<open>\<open>onsetCount\<close> is the number of output lines of \<^verbatim>\<open>aubio onset\<close> that start with a number.\<close>

definition aubioOnsetRate :: "Tools \<Rightarrow> float64 \<Rightarrow> float64 option \<times> goint \<times> error option" where
  "aubioOnsetRate t durSec =
     (if \<not> haveAubio t then (None, 0, Some AubioNotFound)
      else let count = onsetCount t in
           if durSec \<le> 0 then (None, count, None)
           else let rate = toFloat count / (durSec / 60) in (Some rate, count, None))"

text \<open>
  \<open>pitchVals\<close> are the numbers parsed from the last field of each output line of
  \<^verbatim>\<open>aubio pitch\<close>, before the test \<^verbatim>\<open>v > 0\<close>. \<open>None\<close> from
  \<open>mean\<close> would be a NaN; it cannot arise here, the slice being non-empty, and the
  model marks that branch with a panic value it never takes.
\<close>

definition emptyPitchStats :: PitchStats where
  "emptyPitchStats = \<lparr>HzMedian = None, HzMean = None, HzMin = None, HzMax = None,
                        MIDIMedian = None, Note = None\<rparr>"

definition aubioPitchStats :: "Tools \<Rightarrow> error + PitchStats" where
  "aubioPitchStats t =
     (if \<not> haveAubio t then Inl AubioNotFound
      else let Hz0 = filter (\<lambda>v. v > 0) (pitchVals t) in
           if length Hz0 = 0 then Inr emptyPitchStats
           else let Hz = sort Hz0 in
             bindE (index Hz (int (length Hz) sdiv 2)) (\<lambda>med.
             bindE (case mean Hz of None \<Rightarrow> Inl PanicIndexOutOfRange | Some mu \<Rightarrow> Inr mu) (\<lambda>mu.
             bindE (index Hz 0) (\<lambda>minv.
             bindE (index Hz (int (length Hz) - 1)) (\<lambda>maxv.
             let midi = hzToMIDI med in
             bindE (midiToNoteName (toInt64 (goRound midi))) (\<lambda>note.
             Inr \<lparr>HzMedian = Some med, HzMean = Some mu, HzMin = Some minv, HzMax = Some maxv,
                  MIDIMedian = Some midi, Note = Some note\<rparr>))))))"

text \<open>
  \<open>keyMatch\<close> and \<open>confMatch\<close> are the results of \<^verbatim>\<open>FindStringSubmatch\<close> for
  the key and the confidence expression on the lower-cased output of
  \<^verbatim>\<open>aubio key\<close> (the empty list when nothing matches).
\<close>

definition aubioKey :: "Tools \<Rightarrow> error + KeyInfo" where
  "aubioKey t =
     (if \<not> haveAubio t then Inl AubioNotFound
      else let m = keyMatch t;
               key = (if length m \<ge> 2 then Some (toUpper (m ! 1)) else None);
               scale = (if length m \<ge> 2 \<and> length m \<ge> 3 \<and> m ! 2 \<noteq> [] then Some (m ! 2) else None);
               mc = confMatch t;
               conf = (if length mc \<ge> 2 then Some (parseFloat t (mc ! 1)) else None)
           in if key = None \<and> scale = None \<and> conf = None
              then Inr \<lparr>Key = None, Scale = None, Conf = None\<rparr>
              else Inr \<lparr>Key = key, Scale = scale, Conf = conf\<rparr>)"

section \<open>The aggregator \<^verbatim>\<open>analyzeFile\<close>\<close>

text \<open>
  \<^verbatim>\<open>analyzeFile\<close> is one long function; its blocks are separate definitions here,
  in the order of the source. A read \<^verbatim>\<open>m[k]\<close> of a Go map gives 0 for a
  missing key.
\<close>

definition mapGet :: "(string \<rightharpoonup> float64) \<Rightarrow> string \<Rightarrow> float64" where
  "mapGet m k = (case m k of None \<Rightarrow> 0 | Some v \<Rightarrow> v)"

text \<open>
  Levels, clips and headroom. The product \<^verbatim>\<open>probe.SampleRate*probe.Channels\<close> is
  a product of machine integers and wraps around. Where it wraps to 0 the total is 0 and
  the quotient is an infinity or NaN.
\<close>

definition levelStats :: "ProbeInfo \<Rightarrow> float64 \<Rightarrow> float64 \<Rightarrow> (string \<rightharpoonup> float64)
    \<Rightarrow> LevelStats" where
  "levelStats probe peak rms astatsMap =
     (let lv = \<lparr>PeakDB = peak, RMSDB = rms, CrestDB = peak - rms, TruePeakDBTP = None,
                HeadroomDB = 0,
                DCOffset = mapGet astatsMap ''dc_offset'',
                ZeroXRate = mapGet astatsMap ''zero_crossings_rate'',
                NoiseFloor = mapGet astatsMap ''noise_floor'',
                ClipSamples = None, ClipPercent = None\<rparr>;
          lv = (case astatsMap ''number_of_clipped_samples'' of
                  None \<Rightarrow> lv
                | Some v \<Rightarrow>
                    let c = toInt64 v;
                        lv = lv\<lparr>ClipSamples := Some c\<rparr>
                    in if Duration probe > 0 \<and> 0 <s SampleRate probe \<and> 0 <s Channels probe
                       then let total = Duration probe * toFloat (SampleRate probe * Channels probe);
                                p = fdiv (100 * toFloat c) total
                            in lv\<lparr>ClipPercent := Some p\<rparr>
                       else lv)
      in lv\<lparr>HeadroomDB := 0 - PeakDB lv\<rparr>)"

text \<open>Loudness, with the back-fill of the true peak.\<close>

definition loudnessOf :: "Config \<Rightarrow> Tools \<Rightarrow> LevelStats \<Rightarrow> LUFS option \<times> LevelStats" where
  "loudnessOf cfg t lv =
     (if UseEBUR128 cfg
      then (case ffmpegEBUR128 t of
              Inr v \<Rightarrow> (Some v, (case TruePeak v of
                                    Some tp \<Rightarrow> lv\<lparr>TruePeakDBTP := Some tp\<rparr>
                                  | None \<Rightarrow> lv))
            | Inl _ \<Rightarrow> (None, lv))
      else (None, lv))"

fun bandLoop :: "(Bandspec \<Rightarrow> float64 \<times> float64 \<times> error option) \<Rightarrow> Bandspec list
    \<Rightarrow> BandStat list \<Rightarrow> BandStat list" where
  "bandLoop probeBand [] bands = bands"
| "bandLoop probeBand (b # bs) bands =
     (case probeBand b of
        (p, r, None) \<Rightarrow> bandLoop probeBand bs (bands @ [\<lparr>Band = b, BandPeakDB = p, BandRMSDB = r\<rparr>])
      | (p, r, Some _) \<Rightarrow> bandLoop probeBand bs bands)"

definition bandsOf :: "Config \<Rightarrow> Tools \<Rightarrow> BandStat list" where
  "bandsOf cfg t = (if UseBands cfg then bandLoop (ffmpegBandLoudness t) (CfgBands cfg) [] else [])"

text \<open>Silence: the pair is \<^verbatim>\<open>(silRatio, silTotal)\<close>.\<close>

definition silenceOf :: "ProbeInfo \<Rightarrow> SilenceSpan list \<Rightarrow> float64 option \<times> float64 option" where
  "silenceOf probe sil =
     (if length sil > 0
      then let dur = foldl (\<lambda>d sp. d + (End sp - Start sp)) 0 sil
           in (if Duration probe > 0 then Some (dur / Duration probe) else None, Some dur)
      else (None, None))"

text \<open>
  Tempo. An error of \<^verbatim>\<open>aubioBPMSeries\<close> leaves the tempo nil; the slice read
  \<^verbatim>\<open>series[len(series)/2]\<close> panics on an empty series.
\<close>

definition tempoOf :: "Config \<Rightarrow> Tools \<Rightarrow> ProbeInfo \<Rightarrow> error + TempoStats option" where
  "tempoOf cfg t probe =
     (if toLower (BPMEngine cfg) = ''aubio''
      then (case aubioBPMSeries t of
              Inl _ \<Rightarrow> Inr None
            | Inr series \<Rightarrow>
                bindE (index series (int (length series) sdiv 2)) (\<lambda>med.
                bindE (case mean series of None \<Rightarrow> Inl PanicIndexOutOfRange | Some mu \<Rightarrow> Inr mu) (\<lambda>mu.
                let sd = stddev series mu in
                (case aubioOnsetRate t (Duration probe) of
                   (onr, events, _) \<Rightarrow>
                     Inr (Some \<lparr>BPMMedian = Some med, BPMMean = Some mu, BPMStd = Some sd,
                                Events = events, OnsetPerMin = onr\<rparr>)))))
      else Inr None)"

text \<open>
  Pitch and key: the error of \<^verbatim>\<open>aubioPitchStats\<close> is dropped, the one of
  \<^verbatim>\<open>aubioKey\<close> leaves the key nil; a panic is no error value and passes through.
\<close>

definition pitchOf :: "Tools \<Rightarrow> error + PitchStats option" where
  "pitchOf t =
     (case aubioPitchStats t of
        Inl PanicIndexOutOfRange \<Rightarrow> Inl PanicIndexOutOfRange
      | Inl _ \<Rightarrow> Inr None
      | Inr ps \<Rightarrow> Inr (Some ps))"

definition keyOf :: "Tools \<Rightarrow> KeyInfo option" where
  "keyOf t = (case aubioKey t of Inr k \<Rightarrow> Some k | Inl _ \<Rightarrow> None)"

text \<open>
  The hints. \<^verbatim>\<open>derefFloat\<close> gives NaN for a nil pointer; the verb \<^verbatim>\<open>%.nf\<close>
  prints NaN and the infinities as \<^verbatim>\<open>NaN\<close>, \<^verbatim>\<open>+Inf\<close> and \<^verbatim>\<open>-Inf\<close>.
  The arrow of the last two notes is U+2192, three bytes in UTF-8.
\<close>

definition derefFloat :: "fval option \<Rightarrow> fval" where
  "derefFloat p = (case p of None \<Rightarrow> NaN | Some v \<Rightarrow> v)"

definition fmtVerb :: "Tools \<Rightarrow> nat \<Rightarrow> fval \<Rightarrow> string" where
  "fmtVerb t n v =
     (case v of Fin x \<Rightarrow> fmtFloat t n x | PInf \<Rightarrow> ''+Inf'' | NInf \<Rightarrow> ''-Inf'' | NaN \<Rightarrow> ''NaN'')"

definition arrow :: string where
  "arrow = [CHR 0xE2, CHR 0x86, CHR 0x92]"

definition notesOf :: "Tools \<Rightarrow> LevelStats \<Rightarrow> SpectralStats \<Rightarrow> StereoStats \<Rightarrow> string list" where
  "notesOf t lv spec st =
     (let ns = [];
          ns = (case ClipSamples lv of
                  Some c \<Rightarrow>
                    if 0 <s c
                    then ns @ [''Clipping detected: '' @ showInt (sint c) @ '' samples ('' @
                               fmtVerb t 3 (derefFloat (ClipPercent lv)) @
                               ''%)'']
                    else ns
                | None \<Rightarrow> ns);
          ns = (case TruePeakDBTP lv of
                  Some tp \<Rightarrow>
                    if tp > - 1
                    then ns @ [''True peak dangerously high ('' @ fmtFloat t 2 tp @
                               '' dBTP). Consider -1.5 dBTP ceiling.'']
                    else ns
                | None \<Rightarrow> ns);
          ns = (case Flatness spec of
                  Some f \<Rightarrow>
                    if f > 0.5 then ns @ [''High spectral flatness '' @ arrow @ '' noise-like content.'']
                    else ns
                | None \<Rightarrow> ns);
          ns = (case Correlation st of
                  Some c \<Rightarrow>
                    if c < 0.2 then ns @ [''Low L/R correlation '' @ arrow @ '' wide or phasey stereo.'']
                    else ns
                | None \<Rightarrow> ns)
      in ns)"

definition analyzeFile :: "Config \<Rightarrow> Tools \<Rightarrow> string \<Rightarrow> error + Analysis" where
  "analyzeFile cfg t inp =
     (if \<not> statOk t then Inl StatFailed
      else bindE (ffprobeInfo t) (\<lambda>probe.
        (case ffmpegVolumedetect t of
           (peak, rms, _) \<Rightarrow>
        (case ffmpegAstatsOverall t of
           (astatsMap, _) \<Rightarrow>
        let lv = levelStats probe peak rms astatsMap in
        (case loudnessOf cfg t lv of
           (lufs, lv) \<Rightarrow>
        let spec = ffmpegSpectral t;
            st = ffmpegStereoStuff t;
            bands = bandsOf cfg t;
            sil = detectSilences t in
        (case silenceOf probe sil of
           (silRatio, silTotal) \<Rightarrow>
        bindE (tempoOf cfg t probe) (\<lambda>tempo.
        bindE (pitchOf t) (\<lambda>ps.
        let key = keyOf t;
            ns = notesOf t lv spec st
        in Inr \<lparr>File = inp, When = timeNow t,
                Probe = probe, Level = lv, Loudness = lufs, Stereo = st, Spectral = spec,
                Bands = bands, Tempo = tempo, Pitch = ps, AKey = key,
                Silence = sil, SilenceRatio = silRatio, SilenceTotal = silTotal,
                Notes = ns\<rparr>))))))))"

section \<open>The diff \<^verbatim>\<open>compare\<close>\<close>

definition compare :: "Analysis \<Rightarrow> Analysis \<Rightarrow> Diff" where
  "compare a b =
     (let d = Map.empty;
          d = d(''peak_db'' \<mapsto> PeakDB (Level b) - PeakDB (Level a));
          d = d(''rms_db'' \<mapsto> RMSDB (Level b) - RMSDB (Level a));
          d = d(''crest_db'' \<mapsto> CrestDB (Level b) - CrestDB (Level a));
          d = (case (Loudness a, Loudness b) of
                 (Some la, Some lb) \<Rightarrow>
                   (d(''lufs_integrated'' \<mapsto> Integrated lb - Integrated la))
                     (''lufs_range'' \<mapsto> Range lb - Range la)
               | _ \<Rightarrow> d);
          d = d(''stereo_side_mid_db'' \<mapsto> SideMidRatioDB (Stereo b) - SideMidRatioDB (Stereo a));
          d = (case (Tempo a, Tempo b) of
                 (Some ta, Some tb) \<Rightarrow>
                   (case (BPMMedian ta, BPMMedian tb) of
                      (Some ma, Some mb) \<Rightarrow> d(''bpm_median'' \<mapsto> mb - ma)
                    | _ \<Rightarrow> d)
               | _ \<Rightarrow> d);
          d = d(''duration_s'' \<mapsto> Duration (Probe b) - Duration (Probe a))
      in \<lparr>DiffA = a, DiffB = b, Delta = d\<rparr>)"

text \<open>
  In \<open>compare\<close> the differences are the exact ones. \<open>compare64\<close> is the same function
  with every subtraction rounded as float64 subtraction is, for two analyses whose fields
  hold float64 values.
\<close>

record Diff64 =
  Diff64A :: Analysis
  Diff64B :: Analysis
  Delta64 :: "string \<rightharpoonup> fval"

definition compare64 :: "Analysis \<Rightarrow> Analysis \<Rightarrow> Diff64" where
  "compare64 a b =
     (let d = Map.empty;
          d = d(''peak_db'' \<mapsto> fsub (PeakDB (Level b)) (PeakDB (Level a)));
          d = d(''rms_db'' \<mapsto> fsub (RMSDB (Level b)) (RMSDB (Level a)));
          d = d(''crest_db'' \<mapsto> fsub (CrestDB (Level b)) (CrestDB (Level a)));
          d = (case (Loudness a, Loudness b) of
                 (Some la, Some lb) \<Rightarrow>
                   (d(''lufs_integrated'' \<mapsto> fsub (Integrated lb) (Integrated la)))
                     (''lufs_range'' \<mapsto> fsub (Range lb) (Range la))
               | _ \<Rightarrow> d);
          d = d(''stereo_side_mid_db'' \<mapsto> fsub (SideMidRatioDB (Stereo b)) (SideMidRatioDB (Stereo a)));
          d = (case (Tempo a, Tempo b) of
                 (Some ta, Some tb) \<Rightarrow>
                   (case (BPMMedian ta, BPMMedian tb) of
                      (Some ma, Some mb) \<Rightarrow> d(''bpm_median'' \<mapsto> fsub mb ma)
                    | _ \<Rightarrow> d)
               | _ \<Rightarrow> d);
          d = d(''duration_s'' \<mapsto> fsub (Duration (Probe b)) (Duration (Probe a)))
      in \<lparr>Diff64A = a, Diff64B = b, Delta64 = d\<rparr>)"

section \<open>Concrete inputs\<close>

text \<open>
  One run of the tools on a twenty-second mono file, with aubio installed, and the
  configuration that enables every probe; the theorems below are tried on them.
\<close>

definition demoProbe :: ProbeInfo where
  "demoProbe = \<lparr>FormatName = ''wav'', Duration = 20, SampleRate = 25000, Channels = 1,
                  BitRate = 800000, BitDepth = 16\<rparr>"

definition demoFmt :: "nat \<Rightarrow> float64 \<Rightarrow> string" where
  "demoFmt n x = (if n = 3 \<and> x = 2 / 100 then ''0.020''
                  else if n = 2 \<and> x = - (1 / 2) then ''-0.50'' else ''?'')"

definition demoTools :: Tools where
  "demoTools = \<lparr>statOk = True,
     ffprobeInfo = Inr demoProbe,
     ffmpegVolumedetect = (- 1, - 13, None),
     ffmpegAstatsOverall = ([''number_of_clipped_samples'' \<mapsto> 100, ''dc_offset'' \<mapsto> 0], None),
     ffmpegEBUR128 = Inr \<lparr>Integrated = - 14, Range = 5, TruePeak = Some (- (1 / 2))\<rparr>,
     ffmpegSpectral = \<lparr>Centroid = None, Rolloff95 = None, Flatness = Some (7 / 10),
                        Spread = None, Skewness = None, Kurtosis = None\<rparr>,
     ffmpegStereoStuff = \<lparr>MidRMS = - 20, SideRMS = - 30, SideMidRatioDB = - 10,
                           Correlation = Some (1 / 10)\<rparr>,
     ffmpegBandLoudness = (\<lambda>b. (0, 0, Some BandParseFailed)),
     detectSilences = [\<lparr>Start = 2, End = 4\<rparr>, \<lparr>Start = 10, End = 21 / 2\<rparr>],
     haveAubio = True,
     tempoFailed = False,
     tempoVals = [120, 60, 90],
     onsetCount = 20,
     pitchVals = [55 / 8],
     keyMatch = [],
     confMatch = [],
     parseFloat = (\<lambda>s. 0),
     fmtFloat = demoFmt,
     timeNow = ''2025-01-01T00:00:00Z''\<rparr>"

definition demoConfig :: Config where
  "demoConfig = \<lparr>OutPath = ''out.log'', Report = ''txt'', FFmpegBin = ''ffmpeg'',
     FFprobeBin = ''ffprobe'', AubioBin = ''aubio'', BPMEngine = ''aubio'', UseBands = True,
     CfgBands = [\<lparr>Lo = 20, Hi = 60\<rparr>], UseEBUR128 = True, AstatsWin = 0,
     SilThresDB = - 45\<rparr>"

text \<open>The same run on a machine without aubio, and with the default tempo engine.\<close>

definition plainTools :: Tools where
  "plainTools = demoTools\<lparr>haveAubio := False\<rparr>"

definition plainConfig :: Config where
  "plainConfig = demoConfig\<lparr>BPMEngine := ''none''\<rparr>"

definition plainLevel :: LevelStats where
  "plainLevel = \<lparr>PeakDB = - 1, RMSDB = - 13, CrestDB = 12, TruePeakDBTP = Some (- (1 / 2)),
     HeadroomDB = 1, DCOffset = 0, ZeroXRate = 0, NoiseFloor = 0,
     ClipSamples = Some 100, ClipPercent = Some (Fin (2 / 100))\<rparr>"

definition plainAnalysis :: Analysis where
  "plainAnalysis = \<lparr>File = ''in.wav'', When = ''2025-01-01T00:00:00Z'',
     Probe = demoProbe, Level = plainLevel,
     Loudness = Some \<lparr>Integrated = - 14, Range = 5, TruePeak = Some (- (1 / 2))\<rparr>,
     Stereo = ffmpegStereoStuff demoTools, Spectral = ffmpegSpectral demoTools,
     Bands = [], Tempo = None, Pitch = None, AKey = None,
     Silence = detectSilences demoTools,
     SilenceRatio = Some (1 / 8), SilenceTotal = Some (5 / 2),
     Notes = [''Clipping detected: 100 samples (0.020%)'',
              ''True peak dangerously high (-0.50 dBTP). Consider -1.5 dBTP ceiling.'',
              ''High spectral flatness '' @ arrow @ '' noise-like content.'',
              ''Low L/R correlation '' @ arrow @ '' wide or phasey stereo.'']\<rparr>"




definition wrapProbe :: ProbeInfo where
  "wrapProbe = demoProbe\<lparr>SampleRate := 2 ^ 62, Channels := 4\<rparr>"

text \<open>
  Analyses for the diff: one with a tempo, a second one with another tempo and other
  levels, and one without loudness. The last run has aubio installed, the default tempo
  engine, and no number in the output of \<^verbatim>\<open>aubio pitch\<close>.
\<close>

definition tempoAnalysis :: Analysis where
  "tempoAnalysis = plainAnalysis\<lparr>Tempo := Some \<lparr>BPMMedian = Some 60, BPMMean = Some 90,
     BPMStd = Some 30, Events = 20, OnsetPerMin = Some 60\<rparr>\<rparr>"

definition fastAnalysis :: Analysis where
  "fastAnalysis = plainAnalysis\<lparr>
     Level := plainLevel\<lparr>PeakDB := - 3, RMSDB := - 10, CrestDB := 7, HeadroomDB := 3\<rparr>,
     Tempo := Some \<lparr>BPMMedian = Some 128, BPMMean = Some 127, BPMStd = Some 2,
                     Events = 40, OnsetPerMin = Some 120\<rparr>\<rparr>"

definition quietAnalysis :: Analysis where
  "quietAnalysis = plainAnalysis\<lparr>Loudness := None\<rparr>"



definition keyTools :: Tools where
  "keyTools = demoTools\<lparr>pitchVals := []\<rparr>"

definition keyAnalysis :: Analysis where
  "keyAnalysis = plainAnalysis\<lparr>Pitch := Some emptyPitchStats,
     AKey := Some \<lparr>Key = None, Scale = None, Conf = None\<rparr>\<rparr>"

section \<open>What a successful run of \<^verbatim>\<open>analyzeFile\<close> returns\<close>

lemma analyzeFile_Inr:
  assumes "analyzeFile cfg t inp = Inr a"
  shows "\<exists>probe tempo ps. statOk t \<and> ffprobeInfo t = Inr probe \<and> tempoOf cfg t probe = Inr tempo
     \<and> pitchOf t = Inr ps
     \<and> a = \<lparr>File = inp, When = timeNow t, Probe = probe,
            Level = snd (loudnessOf cfg t (levelStats probe (fst (ffmpegVolumedetect t))
                      (fst (snd (ffmpegVolumedetect t))) (fst (ffmpegAstatsOverall t)))),
            Loudness = fst (loudnessOf cfg t (levelStats probe (fst (ffmpegVolumedetect t))
                      (fst (snd (ffmpegVolumedetect t))) (fst (ffmpegAstatsOverall t)))),
            Stereo = ffmpegStereoStuff t, Spectral = ffmpegSpectral t,
            Bands = bandsOf cfg t, Tempo = tempo, Pitch = ps, AKey = keyOf t,
            Silence = detectSilences t,
            SilenceRatio = fst (silenceOf probe (detectSilences t)),
            SilenceTotal = snd (silenceOf probe (detectSilences t)),
            Notes = notesOf t (snd (loudnessOf cfg t (levelStats probe (fst (ffmpegVolumedetect t))
                      (fst (snd (ffmpegVolumedetect t))) (fst (ffmpegAstatsOverall t)))))
                      (ffmpegSpectral t) (ffmpegStereoStuff t)\<rparr>"
  using assms
  by (auto simp: analyzeFile_def bindE_def Let_def split: if_splits sum.splits prod.splits)

lemma loudnessOf_level:
  "\<exists>tp. snd (loudnessOf cfg t lv) = lv\<lparr>TruePeakDBTP := tp\<rparr>"
proof (cases "TruePeakDBTP lv")
  case None
  then show ?thesis
    by (auto simp: loudnessOf_def split: sum.splits option.splits intro: exI[of _ None])
next
  case (Some x)
  then show ?thesis
    by (auto simp: loudnessOf_def split: sum.splits option.splits intro: exI[of _ "Some x"])
qed

lemma analyzeFile_Level:
  assumes "analyzeFile cfg t inp = Inr a"
  shows "\<exists>tp. Level a = (levelStats (Probe a) (fst (ffmpegVolumedetect t))
                  (fst (snd (ffmpegVolumedetect t))) (fst (ffmpegAstatsOverall t)))
                \<lparr>TruePeakDBTP := tp\<rparr>"
proof -
  from analyzeFile_Inr [OF assms] obtain probe where
    "Probe a = probe"
    "Level a = snd (loudnessOf cfg t (levelStats probe (fst (ffmpegVolumedetect t))
                      (fst (snd (ffmpegVolumedetect t))) (fst (ffmpegAstatsOverall t))))"
    by auto
  then show ?thesis using loudnessOf_level by metis
qed

lemma levelStats_peak_rms:
  "PeakDB (levelStats probe peak rms m) = peak"
  "RMSDB (levelStats probe peak rms m) = rms"
  "CrestDB (levelStats probe peak rms m) = peak - rms"
  "HeadroomDB (levelStats probe peak rms m) = 0 - peak"
  by (simp_all add: levelStats_def Let_def split: option.splits)

text \<open>The run without aubio, evaluated.\<close>

lemma plain_run: "analyzeFile plainConfig plainTools ''in.wav'' = Inr plainAnalysis"
  by (simp add: analyzeFile_def bindE_def plainConfig_def plainTools_def demoConfig_def
      loudnessOf_def bandsOf_def tempoOf_def pitchOf_def keyOf_def aubioPitchStats_def
      aubioKey_def toLower_def lowerChar_def plainAnalysis_def demoTools_def Let_def
      silenceOf_def demoProbe_def notesOf_def plainLevel_def
      fdiv_def derefFloat_def fmtVerb_def
      demoFmt_def showInt_def digitChar_def word_sless_alt levelStats_def mapGet_def
      toInt64_def truncReal_def toFloat_def)


text \<open>The product of two positive machine integers is exact when it fits.\<close>

lemma sint_mult_no_wrap:
  fixes x y :: goint
  assumes "0 <s x" "0 <s y" "sint x * sint y < 2 ^ 63"
  shows "sint (x * y) = sint x * sint y"
proof -
  have "0 < sint x" "0 < sint y" using assms by (simp_all add: word_sless_alt)
  then have "0 \<le> sint x * sint y" by simp
  then have "- (2 ^ 63) \<le> sint x * sint y"
    by (rule order_trans [rotated]) simp
  with assms(3) show ?thesis
    by (simp add: sint_word_mult signed_take_bit_int_eq_self)
qed

lemma sint_mult_below_2_31:
  fixes x y :: goint
  assumes "0 <s x" "0 <s y" "sint x < 2 ^ 31" "sint y < 2 ^ 31"
  shows "sint (x * y) = sint x * sint y" and "0 < sint x * sint y"
proof -
  have pos: "0 < sint x" "0 < sint y" using assms by (simp_all add: word_sless_alt)
  then show "0 < sint x * sint y" by simp
  have "sint x * sint y < 2 ^ 31 * 2 ^ 31"
    using pos assms(3,4) by (intro mult_strict_mono) simp_all
  then have "sint x * sint y < 2 ^ 63" by simp
  then show "sint (x * y) = sint x * sint y"
    using assms(1,2) by (rule sint_mult_no_wrap [rotated 2])
qed

lemma levelStats_clip:
  "ClipSamples (levelStats probe peak rms m) = map_option toInt64 (m ''number_of_clipped_samples'')"
  "ClipPercent (levelStats probe peak rms m) =
     (case m ''number_of_clipped_samples'' of
        None \<Rightarrow> None
      | Some v \<Rightarrow>
          if Duration probe > 0 \<and> 0 <s SampleRate probe \<and> 0 <s Channels probe
          then Some (fdiv (100 * toFloat (toInt64 v))
                       (Duration probe * toFloat (SampleRate probe * Channels probe)))
          else None)"
  by (auto simp add: levelStats_def Let_def split: option.splits)

text \<open>
  Where the product of sample rate and channel count wraps to 0, the percentage is the
  positive infinity.
\<close>

lemma levelStats_wrap_to_zero:
  "ClipPercent (levelStats wrapProbe 0 0 [''number_of_clipped_samples'' \<mapsto> 100]) = Some PInf"
  by (simp add: levelStats_clip wrapProbe_def demoProbe_def word_sless_alt fdiv_def
      toFloat_def toInt64_def truncReal_def)

text \<open>The run with aubio installed and nothing recognizable in its output, evaluated.\<close>

lemma key_run: "analyzeFile plainConfig keyTools ''in.wav'' = Inr keyAnalysis"
  by (simp add: analyzeFile_def bindE_def plainConfig_def keyTools_def demoConfig_def
      loudnessOf_def bandsOf_def tempoOf_def pitchOf_def keyOf_def aubioPitchStats_def
      aubioKey_def toLower_def lowerChar_def plainAnalysis_def demoTools_def Let_def
      silenceOf_def demoProbe_def notesOf_def plainLevel_def keyAnalysis_def
      fdiv_def derefFloat_def fmtVerb_def
      demoFmt_def showInt_def digitChar_def word_sless_alt levelStats_def mapGet_def
      toInt64_def truncReal_def toFloat_def)






section \<open>Tempo statistics and pitch names\<close>

text \<open>
  \<^verbatim>\<open>mean\<close> is the population mean and \<^verbatim>\<open>stddev\<close> the sample standard deviation
  with the divisor n - 1 (0 below two elements). An empty series gives no tempo record;
  otherwise the record holds the element at index len/2 of the series as aubio printed it.
\<close>

lemma foldl_add_sum:
  "foldl (\<lambda>s v. s + f v) a xs = a + sum_list (map f xs)" for a :: real
  by (induction xs arbitrary: a) simp_all

lemma mean_population:
  "mean xs = (if xs = [] then None else Some (sum_list xs / real (length xs)))"
  using foldl_add_sum [of "\<lambda>v. v" 0 xs] by (simp add: mean_def)

lemma stddev_bessel:
  "stddev xs m =
     (if length xs < 2 then 0
      else sqrt ((\<Sum>v\<leftarrow>xs. (v - m)\<^sup>2) / real (length xs - 1)))"
  using foldl_add_sum [of "\<lambda>v. (v - m) * (v - m)" 0 xs]
  by (simp add: stddev_def Let_def power2_eq_square)

lemma tempoOf_empty:
  "tempoVals t = [] \<Longrightarrow> tempoOf cfg t probe = Inr None"
  by (simp add: tempoOf_def aubioBPMSeries_def Let_def)

lemma tempoOf_series:
  assumes "toLower (BPMEngine cfg) = ''aubio''" "haveAubio t" "\<not> tempoFailed t" "tempoVals t \<noteq> []"
  shows "\<exists>ts. tempoOf cfg t probe = Inr (Some ts)
     \<and> BPMMedian ts = Some (tempoVals t ! (length (tempoVals t) div 2))
     \<and> BPMMean ts = Some (sum_list (tempoVals t) / real (length (tempoVals t)))
     \<and> BPMStd ts = Some (stddev (tempoVals t) (sum_list (tempoVals t) / real (length (tempoVals t))))"
proof -
  have "int (length (tempoVals t)) sdiv 2 = int (length (tempoVals t) div 2)"
    by (simp add: signed_divide_int_def zdiv_int sgn_if)
  moreover have "length (tempoVals t) div 2 < length (tempoVals t)"
    using assms(4) by simp
  ultimately have i: "index (tempoVals t) (int (length (tempoVals t)) sdiv 2)
     = Inr (tempoVals t ! (length (tempoVals t) div 2))"
    by (simp add: index_def)
  show ?thesis using assms
    by (simp add: tempoOf_def aubioBPMSeries_def Let_def i bindE_def mean_population
        split: prod.splits)
qed

lemma sqrt_900: "sqrt 900 = 30"
  using real_sqrt_abs [of 30] by simp

text \<open>
  440 Hz is MIDI 69 and the note A4. From MIDI 0 upwards the name is the entry m mod 12
  of the table followed by the octave m div 12 - 1.
\<close>

lemma log2_64th: "log 2 (1 / 64) = - 6"
proof -
  have "log 2 64 = (6::real)" using log2_of_power_eq [of 64 6] by simp
  then show ?thesis by (simp add: log_divide)
qed

lemma hzToMIDI_low: "hzToMIDI (55 / 8) = - 3"
proof -
  have "(55 / 8 / 440 :: real) = 1 / 64" by simp
  then show ?thesis by (simp add: hzToMIDI_def log2_64th)
qed

lemma hzToMIDI_440: "hzToMIDI 440 = 69"
  by (simp add: hzToMIDI_def)

lemma midiToNoteName_69: "midiToNoteName 69 = Inr ''A4''"
  by (simp add: midiToNoteName_def goRem_def goDiv_def bindE_def index_def noteNames_def
      showInt_def digitChar_def signed_divide_int_def signed_modulo_int_def)

lemma midiToNoteName_m3: "midiToNoteName (- 3) = Inr ''A-1''"
  by (simp add: midiToNoteName_def goRem_def goDiv_def bindE_def index_def noteNames_def
      showInt_def digitChar_def signed_divide_int_def signed_modulo_int_def)

lemma sint_small:
  assumes "- (2 ^ 63) \<le> k" "k < 2 ^ 63"
  shows "sint (word_of_int k :: goint) = k"
  using assms by (simp add: sint_sbintrunc' signed_take_bit_int_eq_self)

lemma sint_add_1200:
  fixes m :: goint
  assumes "0 \<le> sint m" "sint m < 2 ^ 63 - 1200"
  shows "sint (m + 1200) = sint m + 1200"
proof -
  have "sint (1200 :: goint) = 1200" by simp
  then have "sint (m + 1200) = signed_take_bit 63 (sint m + 1200)"
    by (simp add: sint_word_add)
  also have "\<dots> = sint m + 1200"
    using assms by (intro signed_take_bit_int_eq_self) simp_all
  finally show ?thesis .
qed

lemma sint_div12_minus1:
  fixes m :: goint
  assumes "0 \<le> sint m"
  shows "sint (word_of_int (sint m sdiv 12) - 1 :: goint) = sint m div 12 - 1"
proof -
  have lt: "sint m < 2 ^ 63" using sint_lt [of m] by simp
  have d: "sint m sdiv 12 = sint m div 12"
    using assms by (simp add: signed_divide_int_def sgn_if)
  have b: "- (2 ^ 63) \<le> sint m div 12 - 1" "sint m div 12 - 1 < 2 ^ 63"
    using assms lt by linarith+
  have "(word_of_int (sint m div 12) - 1 :: goint) = word_of_int (sint m div 12 - 1)"
    by simp
  then show ?thesis using sint_small [OF b] by (simp only: d)
qed


lemma midiToNoteName_nonneg:
  assumes "0 \<le> sint m" "sint m < 2 ^ 63 - 1200"
  shows "midiToNoteName m = Inr (noteNames ! nat (sint m mod 12) @ showInt (sint m div 12 - 1))"
proof -
  have "(sint m + 1200) mod 12 = sint m mod 12" by presburger
  then have r: "sint (m + 1200) smod 12 = sint m mod 12"
    using assms by (simp add: sint_add_1200 signed_modulo_int_def sgn_if)
  have rb: "0 \<le> sint m mod 12" "sint m mod 12 < 12" by simp_all
  moreover have "- (2 ^ 63) \<le> (0::int)" "(12::int) < 2 ^ 63" by simp_all
  ultimately have "- (2 ^ 63) \<le> sint m mod 12" "sint m mod 12 < 2 ^ 63" by linarith+
  then have sm: "sint (word_of_int (sint m mod 12) :: goint) = sint m mod 12"
    by (rule sint_small)
  have s12: "sint (12 :: goint) = 12" by simp
  have n: "sint (goRem (m + 1200) 12) = sint m mod 12"
    unfolding goRem_def by (simp only: s12 r sm)
  have i: "index noteNames (sint m mod 12) = Inr (noteNames ! nat (sint m mod 12))"
    using rb by (simp add: index_def noteNames_def)
  have o: "sint (goDiv m 12 - 1) = sint m div 12 - 1"
    unfolding goDiv_def using sint_div12_minus1 [OF assms(1)] by simp
  show ?thesis by (simp add: midiToNoteName_def Let_def n i o bindE_def)
qed

lemma aubioPitchStats_midi:
  assumes "aubioPitchStats t = Inr ps" and "HzMedian ps = Some med"
  shows "0 < med \<and> MIDIMedian ps = Some (69 + 12 * log 2 (med / 440))
       \<and> (\<exists>name. midiToNoteName (toInt64 (goRound (69 + 12 * log 2 (med / 440)))) = Inr name
             \<and> Note ps = Some name)"
proof -
  let ?Hz = "sort (filter (\<lambda>v. v > 0) (pitchVals t))"
  from assms have ne: "filter (\<lambda>v. v > 0) (pitchVals t) \<noteq> []"
    by (auto simp add: aubioPitchStats_def emptyPitchStats_def Let_def split: if_splits)
  from assms obtain k where k: "index ?Hz k = Inr med"
    by (auto simp add: aubioPitchStats_def emptyPitchStats_def Let_def bindE_def
        split: if_splits sum.splits option.splits)
  then have "nat k < length ?Hz" "med = ?Hz ! nat k"
    by (auto simp add: index_def split: if_splits)
  then have "med \<in> set ?Hz" using nth_mem by blast
  then have pos: "0 < med" by simp
  from assms show ?thesis using pos
    by (auto simp add: aubioPitchStats_def emptyPitchStats_def Let_def bindE_def hzToMIDI_def
        split: if_splits sum.splits option.splits)
qed

section \<open>Rounding of float64 subtraction\<close>









text \<open>The rounded diff is the exact diff with every delta rounded.\<close>

lemma compare64_rounds:
  "Delta64 (compare64 a b) k = map_option fl64 (Delta (compare a b) k)"
  by (simp add: compare64_def compare_def fsub_def Let_def split: option.splits)




section \<open>Derived level fields\<close>

text \<open>
  C1. In every analysis that \<^verbatim>\<open>analyzeFile\<close> returns, with the peak and the RMS
  level that the level probe (volumedetect) gave, the crest factor is peak - RMS and the
  headroom is 0 - peak.
\<close>

theorem analyzeFile_crest_headroom:
  assumes "analyzeFile cfg t inp = Inr a"
    and "ffmpegVolumedetect t = (peak, rms, err)"
  shows "PeakDB (Level a) = peak \<and> RMSDB (Level a) = rms
       \<and> CrestDB (Level a) = peak - rms \<and> HeadroomDB (Level a) = 0 - peak"
proof -
  from analyzeFile_Level [OF assms(1)] obtain tp where
    "Level a = (levelStats (Probe a) peak rms (fst (ffmpegAstatsOverall t)))\<lparr>TruePeakDBTP := tp\<rparr>"
    using assms(2) by auto
  then show ?thesis by (simp add: levelStats_peak_rms)
qed

theorem analyzeFile_crest_headroom_witness:
  "analyzeFile plainConfig plainTools ''in.wav'' = Inr plainAnalysis
   \<and> ffmpegVolumedetect plainTools = (- 1, - 13, None)
   \<and> CrestDB (Level plainAnalysis) = (- 1) - (- 13)
   \<and> HeadroomDB (Level plainAnalysis) = 0 - (- 1)"
proof -
  have vd: "ffmpegVolumedetect plainTools = (- 1, - 13, None)"
    by (simp add: plainTools_def demoTools_def)
  from analyzeFile_crest_headroom [OF plain_run vd] show ?thesis
    using plain_run vd by simp
qed

text \<open>
  C2. In every analysis that \<^verbatim>\<open>analyzeFile\<close> returns, the clip percentage is
  present exactly when the clip count is present and the duration, the sample rate and
  the channel count are all positive; when present it is
  100 * count / (duration * sampleRate * channels). The sample rate and the channel count
  are the ones ffprobe reports, 32-bit numbers, for which the machine product
  \<^verbatim>\<open>probe.SampleRate*probe.Channels\<close> is the exact one.
\<close>

theorem analyzeFile_clip_percent:
  assumes "analyzeFile cfg t inp = Inr a"
  shows "(ClipPercent (Level a) \<noteq> None \<longleftrightarrow>
            ClipSamples (Level a) \<noteq> None \<and> Duration (Probe a) > 0
            \<and> 0 <s SampleRate (Probe a) \<and> 0 <s Channels (Probe a))
       \<and> (sint (SampleRate (Probe a)) < 2 ^ 31 \<and> sint (Channels (Probe a)) < 2 ^ 31 \<longrightarrow>
            (\<forall>p. ClipPercent (Level a) = Some p \<longrightarrow>
              (\<exists>c. ClipSamples (Level a) = Some c
                \<and> p = Fin (100 * real_of_int (sint c)
                            / (Duration (Probe a) * real_of_int (sint (SampleRate (Probe a)))
                               * real_of_int (sint (Channels (Probe a))))))))"
proof -
  from analyzeFile_Level [OF assms] obtain tp where
    lv: "Level a = (levelStats (Probe a) (fst (ffmpegVolumedetect t))
                  (fst (snd (ffmpegVolumedetect t))) (fst (ffmpegAstatsOverall t)))
                \<lparr>TruePeakDBTP := tp\<rparr>"
    by blast
  show ?thesis
  proof (cases "fst (ffmpegAstatsOverall t) ''number_of_clipped_samples''")
    case None
    then show ?thesis by (simp add: lv levelStats_clip)
  next
    case (Some v)
    show ?thesis
    proof (cases "Duration (Probe a) > 0 \<and> 0 <s SampleRate (Probe a) \<and> 0 <s Channels (Probe a)")
      case False
      then show ?thesis using Some by (auto simp add: lv levelStats_clip)
    next
      case True
      have ex: "sint (SampleRate (Probe a)) < 2 ^ 31 \<and> sint (Channels (Probe a)) < 2 ^ 31 \<Longrightarrow>
        fdiv (100 * toFloat (toInt64 v))
             (Duration (Probe a) * toFloat (SampleRate (Probe a) * Channels (Probe a)))
        = Fin (100 * real_of_int (sint (toInt64 v))
               / (Duration (Probe a) * real_of_int (sint (SampleRate (Probe a)))
                  * real_of_int (sint (Channels (Probe a)))))"
      proof -
        assume b: "sint (SampleRate (Probe a)) < 2 ^ 31 \<and> sint (Channels (Probe a)) < 2 ^ 31"
        from True b have m: "sint (SampleRate (Probe a) * Channels (Probe a))
            = sint (SampleRate (Probe a)) * sint (Channels (Probe a))"
          and pos: "0 < sint (SampleRate (Probe a)) * sint (Channels (Probe a))"
          by (simp_all add: sint_mult_below_2_31)
        have r: "real_of_int (sint (SampleRate (Probe a) * Channels (Probe a)))
            = real_of_int (sint (SampleRate (Probe a))) * real_of_int (sint (Channels (Probe a)))"
          unfolding m by (simp only: of_int_mult)
        from pos have "0 < real_of_int (sint (SampleRate (Probe a)) * sint (Channels (Probe a)))"
          by (simp only: of_int_0_less_iff)
        then have pr: "0 < real_of_int (sint (SampleRate (Probe a))) * real_of_int (sint (Channels (Probe a)))"
          by (simp only: of_int_mult)
        from True have d: "0 < Duration (Probe a)" by blast
        have nz: "Duration (Probe a)
            * (real_of_int (sint (SampleRate (Probe a))) * real_of_int (sint (Channels (Probe a)))) \<noteq> 0"
          using mult_pos_pos [OF d pr] by (metis less_irrefl)
        show ?thesis unfolding fdiv_def toFloat_def r using nz by (simp only: if_False mult.assoc)
      qed
      have cp: "ClipPercent (Level a) = Some (fdiv (100 * toFloat (toInt64 v))
             (Duration (Probe a) * toFloat (SampleRate (Probe a) * Channels (Probe a))))"
        and cs: "ClipSamples (Level a) = Some (toInt64 v)"
        using Some True by (simp_all add: lv levelStats_clip)
      show ?thesis using True ex by (simp add: cp cs)
    qed
  qed
qed

theorem analyzeFile_clip_percent_witness:
  "analyzeFile plainConfig plainTools ''in.wav'' = Inr plainAnalysis
   \<and> sint (SampleRate (Probe plainAnalysis)) < 2 ^ 31
   \<and> sint (Channels (Probe plainAnalysis)) < 2 ^ 31
   \<and> ClipSamples (Level plainAnalysis) = Some 100
   \<and> ClipPercent (Level plainAnalysis) = Some (Fin (2 / 100))
   \<and> (2 / 100 :: real) = 100 * real_of_int (sint (100 :: goint))
        / (Duration (Probe plainAnalysis) * real_of_int (sint (SampleRate (Probe plainAnalysis)))
           * real_of_int (sint (Channels (Probe plainAnalysis))))"
  using analyzeFile_clip_percent [OF plain_run] plain_run
  by (simp add: plainAnalysis_def plainLevel_def demoProbe_def)

section \<open>Silence segmenter\<close>

text \<open>
  C5. For a segment with start \<open>\<le>\<close> end and a trim \<open>> 0\<close>, the clamp-trim step gives
  new start = min(end, start + trim) and new end = max(new start, end - trim), and the
  new start is at most the new end: a trimmed segment may be empty, never inverted.
\<close>

theorem trimSegment_never_inverts:
  assumes "seg_start sg \<le> seg_end sg" and "0 < trim"
  shows "trimSegment trim sg =
           (min (seg_end sg) (seg_start sg + trim),
            max (min (seg_end sg) (seg_start sg + trim)) (seg_end sg - trim))
       \<and> fst (trimSegment trim sg) \<le> snd (trimSegment trim sg)"
  using assms by (simp add: trimSegment_def Let_def)

theorem trimSegment_never_inverts_witness:
  "seg_start \<lparr>seg_start = 4, seg_end = 9 / 2\<rparr> \<le> seg_end \<lparr>seg_start = 4, seg_end = 9 / 2\<rparr>
   \<and> (0::real) < 1 / 2
   \<and> trimSegment (1 / 2) \<lparr>seg_start = 4, seg_end = 9 / 2\<rparr> = (9 / 2, 9 / 2)
   \<and> fst (trimSegment (1 / 2) \<lparr>seg_start = 4, seg_end = 9 / 2\<rparr>)
       \<le> snd (trimSegment (1 / 2) \<lparr>seg_start = 4, seg_end = 9 / 2\<rparr>)"
  using trimSegment_never_inverts [of "\<lparr>seg_start = 4, seg_end = 9 / 2\<rparr>" "1 / 2"]
  by simp

text \<open>
  C4 (as amended). With the silence spans [(2,4),(10,10.5)], total duration 20 and
  minimum silence duration 1, only the span (2,4) is a cut, since (10,10.5) lasts 0.5;
  the segments are [(0,2),(4,20)], and with trim 0.5 the cuts are (0.5,1.5) and
  (4.5,19.5). With a minimum silence duration of 0.5 both spans are cuts, the segments
  are [(0,2),(4,10),(10.5,20)], and with trim 0.5 the cuts are (0.5,1.5), (4.5,9.5) and
  (11,19.5): every segment shrinks by 0.5 at both ends.
\<close>

theorem segmenter_example:
  "segmentsOf (Silence plainAnalysis) (Duration (Probe plainAnalysis)) 1
     = [\<lparr>seg_start = 0, seg_end = 2\<rparr>, \<lparr>seg_start = 4, seg_end = 20\<rparr>]
   \<and> splitBySilence (\<lambda>c. True) plainAnalysis 1 (1 / 2)
     = ([(1, 1 / 2, 3 / 2), (2, 9 / 2, 39 / 2)], None)
   \<and> segmentsOf (Silence plainAnalysis) (Duration (Probe plainAnalysis)) (1 / 2)
     = [\<lparr>seg_start = 0, seg_end = 2\<rparr>, \<lparr>seg_start = 4, seg_end = 10\<rparr>,
        \<lparr>seg_start = 21 / 2, seg_end = 20\<rparr>]
   \<and> splitBySilence (\<lambda>c. True) plainAnalysis (1 / 2) (1 / 2)
     = ([(1, 1 / 2, 3 / 2), (2, 9 / 2, 19 / 2), (3, 11, 39 / 2)], None)"
  by (simp add: splitBySilence_def segmentsOf_def trimSegment_def plainAnalysis_def
      demoTools_def demoProbe_def Let_def)

text \<open>
  The segment list of the claim as stated is not what minimum silence duration 1 gives.
\<close>

theorem segmenter_example_counterexample:
  "segmentsOf [\<lparr>Start = 2, End = 4\<rparr>, \<lparr>Start = 10, End = 21 / 2\<rparr>] 20 1
     \<noteq> [\<lparr>seg_start = 0, seg_end = 2\<rparr>, \<lparr>seg_start = 4, seg_end = 10\<rparr>,
         \<lparr>seg_start = 21 / 2, seg_end = 20\<rparr>]"
  by (simp add: segmentsOf_def)

section \<open>Diagnostic notes\<close>




section \<open>Key detection\<close>

text \<open>
  C9 (as amended). When the output of the key tool holds no key, scale or confidence
  token, the analysis carries a key record whose three fields are all absent, provided
  aubio is installed; the key record itself is absent exactly when aubio is not found.
\<close>

theorem analyzeFile_key_no_token:
  assumes "analyzeFile cfg t inp = Inr a"
  shows "(length (keyMatch t) < 2 \<and> length (confMatch t) < 2 \<longrightarrow>
           AKey a = (if haveAubio t then Some \<lparr>Key = None, Scale = None, Conf = None\<rparr> else None))
       \<and> (AKey a = None \<longleftrightarrow> \<not> haveAubio t)"
proof -
  from analyzeFile_Inr [OF assms] have k: "AKey a = keyOf t" by auto
  show ?thesis unfolding k
    by (auto simp add: keyOf_def aubioKey_def Let_def)
qed

theorem analyzeFile_key_no_token_witness:
  "analyzeFile plainConfig keyTools ''in.wav'' = Inr keyAnalysis
   \<and> length (keyMatch keyTools) < 2 \<and> length (confMatch keyTools) < 2
   \<and> haveAubio keyTools
   \<and> AKey keyAnalysis = Some \<lparr>Key = None, Scale = None, Conf = None\<rparr>"
  using analyzeFile_key_no_token [OF key_run] key_run
  by (simp add: keyTools_def demoTools_def)

text \<open>
  The claim as stated fails: with aubio installed and no token in its output the key
  record of the analysis is present.
\<close>

theorem analyzeFile_key_no_token_counterexample:
  "analyzeFile plainConfig keyTools ''in.wav'' = Inr keyAnalysis
   \<and> keyMatch keyTools = [] \<and> confMatch keyTools = []
   \<and> AKey keyAnalysis \<noteq> None"
  using key_run by (simp add: keyTools_def demoTools_def keyAnalysis_def)

section \<open>Diff\<close>

text \<open>
  C6. The delta map of \<^verbatim>\<open>compare\<close> holds \<^verbatim>\<open>bpm_median\<close> exactly when
  both analyses have a tempo with a median, and then its value is B - A; it holds
  \<^verbatim>\<open>lufs_integrated\<close> and \<^verbatim>\<open>lufs_range\<close> exactly when both analyses have a
  loudness, and then their values are B - A. A metric absent on one side has no entry,
  not the entry 0.
\<close>

theorem compare_only_present:
  "(''bpm_median'' \<in> dom (Delta (compare a b)) \<longleftrightarrow>
      (\<exists>ta tb ma mb. Tempo a = Some ta \<and> Tempo b = Some tb
         \<and> BPMMedian ta = Some ma \<and> BPMMedian tb = Some mb))
   \<and> (\<forall>ta tb ma mb. Tempo a = Some ta \<and> Tempo b = Some tb
         \<and> BPMMedian ta = Some ma \<and> BPMMedian tb = Some mb
       \<longrightarrow> Delta (compare a b) ''bpm_median'' = Some (mb - ma))
   \<and> (''lufs_integrated'' \<in> dom (Delta (compare a b)) \<longleftrightarrow>
        Loudness a \<noteq> None \<and> Loudness b \<noteq> None)
   \<and> (''lufs_range'' \<in> dom (Delta (compare a b)) \<longleftrightarrow>
        Loudness a \<noteq> None \<and> Loudness b \<noteq> None)
   \<and> (\<forall>la lb. Loudness a = Some la \<and> Loudness b = Some lb
       \<longrightarrow> Delta (compare a b) ''lufs_integrated'' = Some (Integrated lb - Integrated la)
         \<and> Delta (compare a b) ''lufs_range'' = Some (Range lb - Range la))"
  by (auto simp add: compare_def Let_def split: option.splits)

theorem compare_only_present_witness:
  "''bpm_median'' \<notin> dom (Delta (compare tempoAnalysis plainAnalysis))
   \<and> ''lufs_integrated'' \<notin> dom (Delta (compare quietAnalysis quietAnalysis))
   \<and> ''lufs_range'' \<notin> dom (Delta (compare quietAnalysis quietAnalysis))
   \<and> Delta (compare tempoAnalysis fastAnalysis) ''bpm_median'' = Some (128 - 60)
   \<and> Delta (compare tempoAnalysis fastAnalysis) ''lufs_integrated'' = Some ((- 14) - (- 14))"
  using compare_only_present [of tempoAnalysis plainAnalysis]
    compare_only_present [of quietAnalysis quietAnalysis]
    compare_only_present [of tempoAnalysis fastAnalysis]
  by (simp add: tempoAnalysis_def fastAnalysis_def quietAnalysis_def plainAnalysis_def)




section \<open>Tempo and pitch at concrete inputs\<close>

text \<open>
  C3. At the tempo series [120, 60, 90] the tempo record holds the mean 90 and the
  standard deviation 30, and as median the value 60, which is the middle element of the
  series as returned; the middle element of the sorted series is 90.
\<close>

theorem tempo_median_unsorted:
  "tempoOf demoConfig demoTools demoProbe =
     Inr (Some \<lparr>BPMMedian = Some 60, BPMMean = Some 90, BPMStd = Some 30,
                Events = 20, OnsetPerMin = Some 60\<rparr>)
   \<and> index (sort (tempoVals demoTools)) (int (length (tempoVals demoTools)) sdiv 2) = Inr 90"
  by (simp add: tempoOf_def aubioBPMSeries_def aubioOnsetRate_def demoConfig_def demoTools_def
      demoProbe_def toLower_def lowerChar_def bindE_def index_def mean_def stddev_def
      toFloat_def Let_def signed_divide_int_def sqrt_900)

text \<open>
  C8. At the median pitch 6.875 Hz the MIDI number is 69 + 12 * log2(6.875/440) = -3 and
  the note name returned is A-1; the octave floor(-3/12) - 1 is -2, which names the
  note A-2.
\<close>

theorem pitch_note_below_midi_zero:
  "aubioPitchStats demoTools =
     Inr \<lparr>HzMedian = Some (55 / 8), HzMean = Some (55 / 8), HzMin = Some (55 / 8),
          HzMax = Some (55 / 8), MIDIMedian = Some (- 3), Note = Some ''A-1''\<rparr>
   \<and> noteNames ! nat ((- 3) mod 12) @ showInt (\<lfloor>(- 3 :: real) / 12\<rfloor> - 1) = ''A-2''"
  by (simp add: aubioPitchStats_def demoTools_def bindE_def index_def mean_def Let_def
      hzToMIDI_low goRound_def toInt64_def truncReal_def midiToNoteName_m3
      noteNames_def showInt_def digitChar_def signed_divide_int_def)

end
